theory Spec2Isabelle
  imports Main
begin

section \<open>JavaScript values used by the controllers\<close>

text \<open>
  A request field that may be \<^verbatim>\<open>undefined\<close> is a \<open>string option\<close>: the handlers
  are studied on string fields, and no other JavaScript type is modelled.
  \<^verbatim>\<open>String.prototype.trim\<close> and \<^verbatim>\<open>String.prototype.toLowerCase\<close> belong to the
  JavaScript runtime, and which characters they strip or lower is the runtime's matter:
  they are parameters of the embedding (the fields \<open>trim\<close> and \<open>toLowerCase\<close> of the
  record \<open>libs\<close> below), and every general theorem holds for whatever they compute.
\<close>

text \<open>\<^verbatim>\<open>s.replace(pat, rep)\<close> with a string pattern: the first occurrence only.\<close>

fun replace :: "string \<Rightarrow> string \<Rightarrow> string \<Rightarrow> string" where
  "replace pat rep [] = (if pat = [] then rep else [])"
| "replace pat rep (c # cs) =
     (if take (length pat) (c # cs) = pat then rep @ drop (length pat) (c # cs)
      else c # replace pat rep cs)"

text \<open>\<^verbatim>\<open>!v\<close> for a value that is a string or \<^verbatim>\<open>undefined\<close>.\<close>

definition falsy :: "string option \<Rightarrow> bool" where
  "falsy v = (case v of None \<Rightarrow> True | Some s \<Rightarrow> s = [])"

section \<open>Errors\<close>

text \<open>
  Modelled from the spec: \<^verbatim>\<open>utils/ApiError.js\<close> is not among the sources. The spec's
  error envelope carries \<^verbatim>\<open>statusCode\<close> and \<^verbatim>\<open>message\<close>, the two arguments every
  \<^verbatim>\<open>new ApiError(status, message)\<close> of the controllers passes. The authorisation
  middleware passes the caught exception as the message, hence \<open>Thrown\<close>.
  \<open>TypeError\<close> is the JavaScript exception of a property read on \<^verbatim>\<open>undefined\<close>;
  \<open>LibraryError name message\<close> is an exception raised inside mongoose, the MongoDB
  driver, bcrypt or jsonwebtoken.
\<close>

datatype error =
    ApiError nat message
  | TypeError string
  | LibraryError string string
and message =
    Text string
  | Thrown error

section \<open>The user collection\<close>

type_synonym objectId = nat

text \<open>
  A document of the \<^verbatim>\<open>users\<close> collection, with the paths of \<^verbatim>\<open>userSchema\<close>
  (the timestamps are left out: no property below reads them). A path that is absent from the
  document, or deselected from a query result, is \<open>None\<close>.
\<close>

record user_doc =
  oid :: objectId
  UserName :: "string option"
  Email :: "string option"
  fullName :: "string option"
  avatar :: "string option"
  coverImage :: "string option"
  watchHistory :: "objectId list"
  password :: "string option"
  refreshToken :: "string option"

text \<open>
  The store: the documents in insertion order, the next fresh \<^verbatim>\<open>_id\<close>, and whether the
  server accepts writes (a refused write raises a driver error in the caller).
\<close>

record db =
  users :: "user_doc list"
  nextId :: objectId
  writable :: bool

text \<open>
  A mongoose document in memory: its values, the paths modified since it was loaded
  (what \<^verbatim>\<open>isModified\<close> reads) and whether it has never been saved.
\<close>

record document =
  data :: user_doc
  modifiedPaths :: "string list"
  isNew :: bool

definition isModified :: "string \<Rightarrow> document \<Rightarrow> bool" where
  "isModified path doc = (path \<in> set (modifiedPaths doc))"

definition hydrate :: "user_doc \<Rightarrow> document" where
  "hydrate u = \<lparr>data = u, modifiedPaths = [], isNew = False\<rparr>"

text \<open>\<^verbatim>\<open>user.findById(id)\<close>; an \<^verbatim>\<open>undefined\<close> id matches no document.\<close>

definition findById :: "db \<Rightarrow> objectId option \<Rightarrow> document option" where
  "findById d i =
     (case i of None \<Rightarrow> None
      | Some k \<Rightarrow> map_option hydrate (find (\<lambda>u. oid u = k) (users d)))"

text \<open>\<^verbatim>\<open>.select("-password -refreshToken")\<close> on a query result.\<close>

definition select :: "document \<Rightarrow> document" where
  "select doc = doc\<lparr>data := (data doc)\<lparr>password := None, refreshToken := None\<rparr>\<rparr>"

fun updateFirst :: "('a \<Rightarrow> bool) \<Rightarrow> ('a \<Rightarrow> 'a) \<Rightarrow> 'a list \<Rightarrow> 'a list" where
  "updateFirst P f [] = []"
| "updateFirst P f (x # xs) = (if P x then f x # xs else x # updateFirst P f xs)"

section \<open>External libraries and configuration\<close>

text \<open>
  The claims carried by a token: the access token signs \<^verbatim>\<open>_id, Email, UserName,
  fullName\<close>, the refresh token \<^verbatim>\<open>_id\<close> alone.
\<close>

record payload =
  p_id :: "objectId option"
  p_Email :: "string option"
  p_UserName :: "string option"
  p_fullName :: "string option"

record cloudinary_response =
  url :: "string option"

text \<open>
  bcrypt and jsonwebtoken are third-party libraries, and the clock and the salt are
  theirs: the embedding takes their functions as parameters, as they answer during
  one request, together with the two string methods of the runtime. \<open>jwt_sign payload secret expiresIn\<close> and \<open>jwt_verify token secret\<close>
  return the thrown exception on the left; \<open>jwt_verify\<close> returns \<open>None\<close> for a decoded
  value that is falsy.

  Modelled from the spec: \<^verbatim>\<open>utils/cloudinary.js\<close> is not among the sources; the upload
  step takes a local path and yields a response with a \<^verbatim>\<open>url\<close>, or \<^verbatim>\<open>null\<close>.
\<close>

record libs =
  bcrypt_hash :: "string \<Rightarrow> nat \<Rightarrow> string"
  bcrypt_compare :: "string \<Rightarrow> string \<Rightarrow> bool"
  jwt_sign :: "payload \<Rightarrow> string option \<Rightarrow> string option \<Rightarrow> error + string"
  jwt_verify :: "string option \<Rightarrow> string option \<Rightarrow> error + payload option"
  UploadOnCloudinary :: "string option \<Rightarrow> cloudinary_response option"
  trim :: "string \<Rightarrow> string"
  toLowerCase :: "string \<Rightarrow> string"

text \<open>\<^verbatim>\<open>process.env\<close>: a variable that is not set is \<open>None\<close>.\<close>

record env =
  ACCESS_TOKEN_SECRET :: "string option"
  ACCESS_TOKEN_EXPIRY :: "string option"
  REFRESH_TOKEN_SECRET :: "string option"
  REFRESH_TOKEN_EXPIRY :: "string option"

section \<open>The user model\<close>

text \<open>
  The setters the schema declares for a string path: \<^verbatim>\<open>lowercase: true, trim: true\<close>
  on \<^verbatim>\<open>UserName\<close> and \<^verbatim>\<open>Email\<close>, \<^verbatim>\<open>trim: true\<close> on \<^verbatim>\<open>fullName\<close>. Mongoose
  applies a path's setters to a value assigned to the path and to a value the path is
  compared with in a query filter.
\<close>

definition castLowerTrim :: "libs \<Rightarrow> string option \<Rightarrow> string option" where
  "castLowerTrim L v = map_option (\<lambda>s. toLowerCase L (trim L s)) v"

definition castTrim :: "libs \<Rightarrow> string option \<Rightarrow> string option" where
  "castTrim L v = map_option (trim L) v"

text \<open>
  \<^verbatim>\<open>user.findOne({$or: [{UserName}, {Email}]})\<close>: the first document one of whose
  two paths equals the cast filter value. An \<^verbatim>\<open>undefined\<close> filter value reaches the
  server as \<^verbatim>\<open>null\<close> (the driver's default), which matches a document that lacks
  the path.
\<close>

definition findOne ::
  "libs \<Rightarrow> db \<Rightarrow> string option \<Rightarrow> string option \<Rightarrow> document option" where
  "findOne L d userName email =
     map_option hydrate
       (find (\<lambda>u. UserName u = castLowerTrim L userName \<or> Email u = castLowerTrim L email)
          (users d))"


text \<open>
  \<^verbatim>\<open>required: true\<close> on \<^verbatim>\<open>UserName, Email, fullName, avatar, password\<close>: a required
  string path is invalid when absent or empty.
\<close>

definition validateRequired :: "user_doc \<Rightarrow> bool" where
  "validateRequired u =
     (\<not> falsy (UserName u) \<and> \<not> falsy (Email u) \<and> \<not> falsy (fullName u) \<and>
      \<not> falsy (avatar u) \<and> \<not> falsy (password u))"

text \<open>
  \<^verbatim>\<open>userSchema.pre("save", ...)\<close>. The hook is an async function: mongoose continues
  the save when its promise resolves, also on the branch that never calls
  \<^verbatim>\<open>next\<close>. \<^verbatim>\<open>bcrypt.hash\<close> rejects when its data argument is \<^verbatim>\<open>undefined\<close>.
\<close>

definition preSave :: "libs \<Rightarrow> document \<Rightarrow> error + document" where
  "preSave L this =
     (if isModified ''password'' this then
        (case password (data this) of
           None \<Rightarrow> Inl (LibraryError ''Error'' ''data and salt arguments required'')
         | Some p \<Rightarrow>
             Inr (this\<lparr>data := (data this)\<lparr>password := Some (bcrypt_hash L p 11)\<rparr>\<rparr>))
      else Inr this)"

text \<open>
  The unique indexes: \<^verbatim>\<open>_id\<close>, and \<^verbatim>\<open>unique: true\<close> on \<^verbatim>\<open>UserName\<close> and
  \<^verbatim>\<open>Email\<close>. The server refuses a document whose key another document holds.
\<close>

definition duplicateKey :: "user_doc list \<Rightarrow> user_doc \<Rightarrow> bool" where
  "duplicateKey us x =
     list_ex (\<lambda>u. oid u = oid x \<or> UserName u = UserName x \<or> Email u = Email x) us"

definition setPath :: "string \<Rightarrow> user_doc \<Rightarrow> user_doc \<Rightarrow> user_doc" where
  "setPath path src dst =
     (if path = ''UserName'' then dst\<lparr>UserName := UserName src\<rparr>
      else if path = ''Email'' then dst\<lparr>Email := Email src\<rparr>
      else if path = ''fullName'' then dst\<lparr>fullName := fullName src\<rparr>
      else if path = ''avatar'' then dst\<lparr>avatar := avatar src\<rparr>
      else if path = ''coverImage'' then dst\<lparr>coverImage := coverImage src\<rparr>
      else if path = ''watchHistory'' then dst\<lparr>watchHistory := watchHistory src\<rparr>
      else if path = ''password'' then dst\<lparr>password := password src\<rparr>
      else if path = ''refreshToken'' then dst\<lparr>refreshToken := refreshToken src\<rparr>
      else dst)"

definition applyModified :: "document \<Rightarrow> user_doc \<Rightarrow> user_doc" where
  "applyModified doc u = foldr (\<lambda>path. setPath path (data doc)) (modifiedPaths doc) u"

definition writeRefused :: error where
  "writeRefused = LibraryError ''MongoServerError'' ''write refused''"

text \<open>
  \<^verbatim>\<open>doc.save({validateBeforeSave})\<close>: validation, then the pre-save hook, then the
  write. A new document is inserted; a loaded one sends its modified paths to the
  stored document of its \<^verbatim>\<open>_id\<close>, and nothing when no path is modified. The result
  is the saved document and the store after the call.
\<close>

definition save :: "libs \<Rightarrow> bool \<Rightarrow> db \<Rightarrow> document \<Rightarrow> (error + document) \<times> db" where
  "save L validateBeforeSave d doc =
     (if validateBeforeSave \<and> \<not> validateRequired (data doc)
      then (Inl (LibraryError ''ValidationError'' ''user validation failed''), d)
      else
        (case preSave L doc of
           Inl e \<Rightarrow> (Inl e, d)
         | Inr this \<Rightarrow>
             if isNew this then
               (if \<not> writable d then (Inl writeRefused, d)
                else if duplicateKey (users d) (data this)
                then (Inl (LibraryError ''MongoServerError'' ''E11000 duplicate key error''), d)
                else (Inr (this\<lparr>modifiedPaths := [], isNew := False\<rparr>),
                      d\<lparr>users := users d @ [data this]\<rparr>))
             else if modifiedPaths this = [] then (Inr this, d)
             else if \<not> writable d then (Inl writeRefused, d)
             else if find (\<lambda>u. oid u = oid (data this)) (users d) = None
             then (Inl (LibraryError ''DocumentNotFoundError'' ''No document found for query''), d)
             else if (isModified ''UserName'' this \<or> isModified ''Email'' this) \<and>
                     duplicateKey (filter (\<lambda>u. oid u \<noteq> oid (data this)) (users d)) (data this)
             then (Inl (LibraryError ''MongoServerError'' ''E11000 duplicate key error''), d)
             else (Inr (this\<lparr>modifiedPaths := []\<rparr>),
                   d\<lparr>users := updateFirst (\<lambda>u. oid u = oid (data this)) (applyModified this)
                                 (users d)\<rparr>)))"

text \<open>
  \<^verbatim>\<open>user.create({fullName, avatar, coverImage, Email, password, UserName})\<close>: a new
  document with a fresh \<^verbatim>\<open>_id\<close>, the schema's setters applied and every given path
  marked modified, then saved with validation. The \<^verbatim>\<open>_id\<close> counter moves on when
  the document is inserted.
\<close>

definition newDocument ::
  "libs \<Rightarrow> db \<Rightarrow> string option \<Rightarrow> string option \<Rightarrow> string option \<Rightarrow> string option \<Rightarrow>
   string option \<Rightarrow> string option \<Rightarrow> document" where
  "newDocument L d fullName' avatar' coverImage' Email' password' UserName' =
     \<lparr>data = \<lparr>oid = nextId d, UserName = castLowerTrim L UserName',
               Email = castLowerTrim L Email',
               fullName = castTrim L fullName', avatar = avatar', coverImage = coverImage',
               watchHistory = [], password = password', refreshToken = None\<rparr>,
      modifiedPaths =
        map fst (filter (\<lambda>(path, v). v \<noteq> None)
          [(''fullName'', fullName'), (''avatar'', avatar'), (''coverImage'', coverImage'),
           (''Email'', Email'), (''password'', password'), (''UserName'', UserName')]),
      isNew = True\<rparr>"

definition create ::
  "libs \<Rightarrow> db \<Rightarrow> string option \<Rightarrow> string option \<Rightarrow> string option \<Rightarrow> string option \<Rightarrow>
   string option \<Rightarrow> string option \<Rightarrow> (error + document) \<times> db" where
  "create L d fullName' avatar' coverImage' Email' password' UserName' =
     (case save L True d
             (newDocument L d fullName' avatar' coverImage' Email' password' UserName') of
        (Inl e, d') \<Rightarrow> (Inl e, d')
      | (Inr doc, d') \<Rightarrow> (Inr doc, d'\<lparr>nextId := Suc (nextId d')\<rparr>))"

text \<open>The assignment \<^verbatim>\<open>User.refreshToken = v\<close>: the path is marked when its value changes.\<close>

definition setRefreshToken :: "string option \<Rightarrow> document \<Rightarrow> document" where
  "setRefreshToken v doc =
     (if refreshToken (data doc) = v then doc
      else doc\<lparr>data := (data doc)\<lparr>refreshToken := v\<rparr>,
               modifiedPaths := ''refreshToken'' # modifiedPaths doc\<rparr>)"

text \<open>
  \<^verbatim>\<open>user.findByIdAndUpdate(id, {$unset: {refreshToken: 1}}, {new: true})\<close>: an update
  sent to the server, which runs no save hook. An \<^verbatim>\<open>undefined\<close> id reaches the
  server as \<^verbatim>\<open>null\<close> and matches no document.
\<close>

definition findByIdAndUpdate :: "db \<Rightarrow> objectId option \<Rightarrow> (error + document option) \<times> db" where
  "findByIdAndUpdate d i =
     (if \<not> writable d then (Inl writeRefused, d)
      else
        (case i of
           None \<Rightarrow> (Inr None, d)
         | Some k \<Rightarrow>
             (case find (\<lambda>u. oid u = k) (users d) of
                None \<Rightarrow> (Inr None, d)
              | Some u \<Rightarrow>
                  (Inr (Some (hydrate (u\<lparr>refreshToken := None\<rparr>))),
                   d\<lparr>users := updateFirst (\<lambda>u. oid u = k) (\<lambda>u. u\<lparr>refreshToken := None\<rparr>)
                                 (users d)\<rparr>))))"

text \<open>\<^verbatim>\<open>bcrypt.compare\<close> rejects when one of its arguments is \<^verbatim>\<open>undefined\<close>.\<close>

definition isPasswordCorrect :: "libs \<Rightarrow> document \<Rightarrow> string option \<Rightarrow> error + bool" where
  "isPasswordCorrect L this password' =
     (case (password', password (data this)) of
        (Some p, Some h) \<Rightarrow> Inr (bcrypt_compare L p h)
      | _ \<Rightarrow> Inl (LibraryError ''Error'' ''data and hash arguments required''))"

definition generateAccessToken :: "libs \<Rightarrow> env \<Rightarrow> document \<Rightarrow> error + string" where
  "generateAccessToken L e this =
     jwt_sign L
       \<lparr>p_id = Some (oid (data this)), p_Email = Email (data this),
        p_UserName = UserName (data this), p_fullName = fullName (data this)\<rparr>
       (ACCESS_TOKEN_SECRET e) (ACCESS_TOKEN_EXPIRY e)"

definition generateRefreshToken :: "libs \<Rightarrow> env \<Rightarrow> document \<Rightarrow> error + string" where
  "generateRefreshToken L e this =
     jwt_sign L
       \<lparr>p_id = Some (oid (data this)), p_Email = None, p_UserName = None, p_fullName = None\<rparr>
       (REFRESH_TOKEN_SECRET e) (REFRESH_TOKEN_EXPIRY e)"

section \<open>Requests and responses\<close>

text \<open>
  What the handlers read of an Express request: the four body fields, the local paths
  of the uploaded files (\<^verbatim>\<open>req.files?.avatar?.[0]?.path\<close>), the \<^verbatim>\<open>accessToken\<close>
  cookie, the \<^verbatim>\<open>Authorization\<close> header, and \<^verbatim>\<open>req.user\<close>. The value assigned to
  \<^verbatim>\<open>req.user\<close> is either the \<^verbatim>\<open>user\<close> model itself or a document of it.
\<close>

record req_body =
  b_fullName :: "string option"
  b_Email :: "string option"
  b_UserName :: "string option"
  b_password :: "string option"

datatype attached = UserModel | UserDocument document

record request =
  body :: req_body
  avatarPath :: "string option"
  coverImagePath :: "string option"
  cookieAccessToken :: "string option"
  authorization :: "string option"
  user :: "attached option"

text \<open>
  Modelled from the spec: \<^verbatim>\<open>utils/ApiResponse.js\<close> is not among the sources; a
  response envelope keeps the three arguments \<^verbatim>\<open>new ApiResponse(statusCode, data,
  message)\<close> is given. A document in the data is serialised with every path it holds.
\<close>

datatype json_data =
    UserJson user_doc
  | LoginJson user_doc string string
  | EmptyJson

datatype api_response = ApiResponse nat json_data string

record response =
  statusCode :: nat
  cookies :: "(string \<times> string) list"
  clearedCookies :: "string list"
  json :: api_response

text \<open>\<^verbatim>\<open>x._id\<close> for the value attached to the request: the model has no such property.\<close>

fun attached_id :: "attached \<Rightarrow> objectId option" where
  "attached_id UserModel = None"
| "attached_id (UserDocument doc) = Some (oid (data doc))"

text \<open>\<^verbatim>\<open>!x\<close> for the value attached to the request: a function or an object is truthy.\<close>

fun attached_falsy :: "attached \<Rightarrow> bool" where
  "attached_falsy UserModel = False"
| "attached_falsy (UserDocument doc) = False"

section \<open>The session controller\<close>

text \<open>
  The handlers are wrapped in \<^verbatim>\<open>asyncHandler\<close> (\<^verbatim>\<open>utils/asyncHandler.js\<close>, not among
  the sources), which passes a handler's exception on to the framework: a handler's
  outcome is its response or the exception it threw, together with the store it leaves
  behind. The first two definitions are the \<^verbatim>\<open>try\<close> block of
  \<^verbatim>\<open>generateAccessAndRefreshToken\<close> and the function with its \<^verbatim>\<open>catch\<close>.
\<close>

definition generateAccessAndRefreshToken_try ::
  "libs \<Rightarrow> env \<Rightarrow> db \<Rightarrow> objectId option \<Rightarrow> (error + string \<times> string) \<times> db" where
  "generateAccessAndRefreshToken_try L e d userId =
     (case findById d userId of
        None \<Rightarrow> (Inl (ApiError 404 (Text ''User not found'')), d)
      | Some User \<Rightarrow>
          (case generateAccessToken L e User of
             Inl x \<Rightarrow> (Inl x, d)
           | Inr accessToken \<Rightarrow>
               (case generateRefreshToken L e User of
                  Inl x \<Rightarrow> (Inl x, d)
                | Inr refreshToken' \<Rightarrow>
                    (case save L False d (setRefreshToken (Some refreshToken') User) of
                       (Inl x, d') \<Rightarrow> (Inl x, d')
                     | (Inr saved, d') \<Rightarrow> (Inr (accessToken, refreshToken'), d')))))"

definition generateAccessAndRefreshToken ::
  "libs \<Rightarrow> env \<Rightarrow> db \<Rightarrow> objectId option \<Rightarrow> (error + string \<times> string) \<times> db" where
  "generateAccessAndRefreshToken L e d userId =
     (case generateAccessAndRefreshToken_try L e d userId of
        (Inl caught, d') \<Rightarrow> (Inl (ApiError 500 (Text ''problem is here'')), d')
      | (Inr tokens, d') \<Rightarrow> (Inr tokens, d'))"

definition registerUser :: "libs \<Rightarrow> db \<Rightarrow> request \<Rightarrow> (error + response) \<times> db" where
  "registerUser L d req =
     (let fullName' = b_fullName (body req); Email' = b_Email (body req);
          UserName' = b_UserName (body req); password' = b_password (body req)
      in
      if list_ex (\<lambda>field. map_option (trim L) field = Some [])
           [fullName', Email', UserName', password']
      then (Inl (ApiError 400 (Text ''all fields are required'')), d)
      else
        (case findOne L d UserName' Email' of
           Some existedUser \<Rightarrow> (Inl (ApiError 409 (Text ''UserName or Email already exists'')), d)
         | None \<Rightarrow>
             (let avatarLocalPath = avatarPath req; coverImageLocalPath = coverImagePath req
              in
              if falsy avatarLocalPath
              then (Inl (ApiError 400 (Text ''Avatar File 1 is required'')), d)
              else
                (let avatar' = UploadOnCloudinary L avatarLocalPath;
                     coverImage' = UploadOnCloudinary L coverImageLocalPath;
                     coverImageurl =
                       (case coverImage' of
                          None \<Rightarrow> []
                        | Some c \<Rightarrow> (case url c of None \<Rightarrow> [] | Some link \<Rightarrow> link))
                 in
                 (case avatar' of
                    None \<Rightarrow> (Inl (ApiError 400 (Text ''Avatar File 2 is Required'')), d)
                  | Some a \<Rightarrow>
                      (case UserName' of
                         None \<Rightarrow> (Inl (TypeError ''Cannot read properties of undefined''), d)
                       | Some un \<Rightarrow>
                           (case create L d fullName' (url a) (Some coverImageurl) Email'
                                   password' (Some (toLowerCase L un)) of
                              (Inl x, d') \<Rightarrow> (Inl x, d')
                            | (Inr newuser, d') \<Rightarrow>
                                (case map_option select (findById d' (Some (oid (data newuser)))) of
                                   None \<Rightarrow>
                                     (Inl (ApiError 500
                                        (Text ''Something went wrong while registering the user'')), d')
                                 | Some createdUser \<Rightarrow>
                                     (Inr \<lparr>statusCode = 201, cookies = [], clearedCookies = [],
                                           json = ApiResponse 200 (UserJson (data createdUser))
                                                    ''user registered succesfully''\<rparr>, d')))))))))"

definition loginUser :: "libs \<Rightarrow> env \<Rightarrow> db \<Rightarrow> request \<Rightarrow> (error + response) \<times> db" where
  "loginUser L e d req =
     (let UserName' = b_UserName (body req); password' = b_password (body req);
          Email' = b_Email (body req)
      in
      if falsy Email' \<and> falsy UserName'
      then (Inl (ApiError 400 (Text ''enter username or email to continue'')), d)
      else if password' = Some []
      then (Inl (ApiError 400 (Text ''enter your password'')), d)
      else
        (case findOne L d UserName' Email' of
           None \<Rightarrow> (Inl (ApiError 409 (Text ''User donot exist'')), d)
         | Some existedUser \<Rightarrow>
             (case isPasswordCorrect L existedUser password' of
                Inl x \<Rightarrow> (Inl x, d)
              | Inr correct \<Rightarrow>
                  if \<not> correct
                  then (Inl (ApiError 401 (Text ''invalid user credentials'')), d)
                  else
                    (case generateAccessAndRefreshToken L e d (Some (oid (data existedUser))) of
                       (Inl x, d') \<Rightarrow> (Inl x, d')
                     | (Inr (accessToken, refreshToken'), d') \<Rightarrow>
                         if accessToken = [] \<or> refreshToken' = []
                         then (Inl (ApiError 500
                                 (Text ''Failed to generate authentication tokens'')), d')
                         else
                           (Inr \<lparr>statusCode = 200,
                                 cookies = [(''accessToken'', accessToken),
                                            (''refreshToken'', refreshToken')],
                                 clearedCookies = [],
                                 json = ApiResponse 200
                                          (LoginJson (data existedUser) accessToken refreshToken')
                                          ''User Logged in succesfully''\<rparr>, d')))))"

definition logoutUser :: "db \<Rightarrow> request \<Rightarrow> (error + response) \<times> db" where
  "logoutUser d req =
     (case user req of
        None \<Rightarrow> (Inl (TypeError ''Cannot read properties of undefined''), d)
      | Some a \<Rightarrow>
          (case findByIdAndUpdate d (attached_id a) of
             (Inl x, d') \<Rightarrow> (Inl x, d')
           | (Inr updated, d') \<Rightarrow>
               (Inr \<lparr>statusCode = 200, cookies = [],
                     clearedCookies = [''accessToken'', ''refreshToken''],
                     json = ApiResponse 200 EmptyJson ''user logged out successfully''\<rparr>, d')))"

section \<open>The access verifier\<close>

text \<open>
  \<^verbatim>\<open>req.cookies?.accessToken || req.header("Authorization")?.replace("Bearer ", "")\<close>.
\<close>

definition extractToken :: "request \<Rightarrow> string option" where
  "extractToken req =
     (if falsy (cookieAccessToken req)
      then map_option (replace ''Bearer '' []) (authorization req)
      else cookieAccessToken req)"

text \<open>
  The body of the \<^verbatim>\<open>try\<close>. The query \<^verbatim>\<open>user.findById(Code?._id).select(...)\<close> is
  built and dropped: it is bound to nothing and never awaited. The test \<^verbatim>\<open>!user\<close>
  and the assignment \<^verbatim>\<open>req.user = user\<close> both read the imported model \<^verbatim>\<open>user\<close>.
  The result on the right is the request handed to \<^verbatim>\<open>next()\<close>.
\<close>

definition verifyJWT_try :: "libs \<Rightarrow> env \<Rightarrow> db \<Rightarrow> request \<Rightarrow> error + request" where
  "verifyJWT_try L e d req =
     (let token = extractToken req
      in
      (case jwt_verify L token (ACCESS_TOKEN_SECRET e) of
         Inl x \<Rightarrow> Inl x
       | Inr None \<Rightarrow> Inl (ApiError 400 (Text ''invalid token''))
       | Inr (Some Code) \<Rightarrow>
           (let dropped = map_option select (findById d (p_id Code))
            in
            if attached_falsy UserModel
            then Inl (ApiError 400 (Text ''invalid accessToken''))
            else Inr (req\<lparr>user := Some UserModel\<rparr>))))"

definition verifyJWT :: "libs \<Rightarrow> env \<Rightarrow> db \<Rightarrow> request \<Rightarrow> error + request" where
  "verifyJWT L e d req =
     (case verifyJWT_try L e d req of
        Inl caught \<Rightarrow> Inl (ApiError 400 (Thrown caught))
      | Inr req' \<Rightarrow> Inr req')"

text \<open>\<^verbatim>\<open>router.route("/logout").post(verifyJWT, logoutUser)\<close>.\<close>

definition logoutRoute :: "libs \<Rightarrow> env \<Rightarrow> db \<Rightarrow> request \<Rightarrow> (error + response) \<times> db" where
  "logoutRoute L e d req =
     (case verifyJWT L e d req of
        Inl x \<Rightarrow> (Inl x, d)
      | Inr req' \<Rightarrow> logoutUser d req')"

section \<open>Signed tokens\<close>

text \<open>
  A token is a string. The encoding below writes a number in binary, least bit first
  and closed by a dot, a string behind its length, and an optional value behind
  \<^verbatim>\<open>N\<close> or \<^verbatim>\<open>S\<close>; each decoder returns the value and the rest of the input.
\<close>

function encNat :: "nat \<Rightarrow> string" where
  "encNat n =
     (if n = 0 then ''.'' else (if even n then CHR ''0'' else CHR ''1'') # encNat (n div 2))"
  by pat_completeness auto
termination
  by (relation "measure (\<lambda>n. n)") auto

declare encNat.simps [simp del]

fun decNat :: "string \<Rightarrow> (nat \<times> string) option" where
  "decNat [] = None"
| "decNat (c # cs) =
     (if c = CHR ''.'' then Some (0, cs)
      else if c = CHR ''0'' then map_option (\<lambda>(n, rest). (2 * n, rest)) (decNat cs)
      else if c = CHR ''1'' then map_option (\<lambda>(n, rest). (2 * n + 1, rest)) (decNat cs)
      else None)"

definition encStr :: "string \<Rightarrow> string" where
  "encStr s = encNat (length s) @ s"

definition decStr :: "string \<Rightarrow> (string \<times> string) option" where
  "decStr s =
     (case decNat s of
        None \<Rightarrow> None
      | Some (n, rest) \<Rightarrow> if n \<le> length rest then Some (take n rest, drop n rest) else None)"

definition encOpt :: "('a \<Rightarrow> string) \<Rightarrow> 'a option \<Rightarrow> string" where
  "encOpt enc v = (case v of None \<Rightarrow> ''N'' | Some x \<Rightarrow> CHR ''S'' # enc x)"

definition decOpt :: "(string \<Rightarrow> ('a \<times> string) option) \<Rightarrow> string \<Rightarrow> ('a option \<times> string) option" where
  "decOpt dec s =
     (case s of
        [] \<Rightarrow> None
      | c # cs \<Rightarrow>
          if c = CHR ''N'' then Some (None, cs)
          else if c = CHR ''S'' then map_option (\<lambda>(x, rest). (Some x, rest)) (dec cs)
          else None)"

text \<open>
  Modelled from the spec: what a signed token holds. The signature is kept as the key
  it was made with: the model keeps what verification checks, not secrecy.
\<close>

record token =
  t_key :: string
  t_exp :: nat
  t_claims :: payload

definition encodeToken :: "token \<Rightarrow> string" where
  "encodeToken t =
     encStr (t_key t) @ encNat (t_exp t) @ encOpt encNat (p_id (t_claims t)) @
     encOpt encStr (p_Email (t_claims t)) @ encOpt encStr (p_UserName (t_claims t)) @
     encOpt encStr (p_fullName (t_claims t))"

definition decodeToken :: "string \<Rightarrow> token option" where
  "decodeToken s =
     (case decStr s of None \<Rightarrow> None | Some (k, s1) \<Rightarrow>
      (case decNat s1 of None \<Rightarrow> None | Some (ex, s2) \<Rightarrow>
       (case decOpt decNat s2 of None \<Rightarrow> None | Some (i, s3) \<Rightarrow>
        (case decOpt decStr s3 of None \<Rightarrow> None | Some (em, s4) \<Rightarrow>
         (case decOpt decStr s4 of None \<Rightarrow> None | Some (un, s5) \<Rightarrow>
          (case decOpt decStr s5 of None \<Rightarrow> None | Some (fn, s6) \<Rightarrow>
             if s6 = []
             then Some \<lparr>t_key = k, t_exp = ex,
                        t_claims = \<lparr>p_id = i, p_Email = em, p_UserName = un, p_fullName = fn\<rparr>\<rparr>
             else None))))))"

text \<open>
  Modelled from the spec: the code of jsonwebtoken is not among the sources. Section 4.2
  of the spec has the issuer sign the claims with a secret and an expiry duration read
  from configuration, as a pure function of input, secret and clock; \<open>timespan\<close>
  reads the configured duration in seconds and \<open>now\<close> is the clock in seconds.
\<close>

definition jwtSign ::
  "(string \<Rightarrow> nat option) \<Rightarrow> nat \<Rightarrow> payload \<Rightarrow> string option \<Rightarrow> string option \<Rightarrow> error + string" where
  "jwtSign timespan now claims secret expiresIn =
     (case secret of
        None \<Rightarrow> Inl (LibraryError ''Error'' ''secretOrPrivateKey must have a value'')
      | Some k \<Rightarrow>
          (case expiresIn of
             None \<Rightarrow> Inl (LibraryError ''Error'' ''expiresIn must be a timespan'')
           | Some ex \<Rightarrow>
               (case timespan ex of
                  None \<Rightarrow> Inl (LibraryError ''Error'' ''expiresIn must be a timespan'')
                | Some lifetime \<Rightarrow>
                    Inr (encodeToken \<lparr>t_key = k, t_exp = now + lifetime, t_claims = claims\<rparr>))))"

text \<open>
  Modelled from the spec: verification checks signature and expiry, and fails with
  \<^verbatim>\<open>MalformedTokenError\<close> on malformed input, \<^verbatim>\<open>InvalidTokenError\<close> on a bad
  signature and \<^verbatim>\<open>ExpiredTokenError\<close> on expiry.
\<close>

definition jwtVerify :: "nat \<Rightarrow> string option \<Rightarrow> string option \<Rightarrow> error + payload option" where
  "jwtVerify now token secret =
     (case token of
        None \<Rightarrow> Inl (LibraryError ''MalformedTokenError'' ''token must be provided'')
      | Some s \<Rightarrow>
          (case decodeToken s of
             None \<Rightarrow> Inl (LibraryError ''MalformedTokenError'' ''token malformed'')
           | Some t \<Rightarrow>
               if secret = Some (t_key t)
               then (if now < t_exp t then Inr (Some (t_claims t))
                     else Inl (LibraryError ''ExpiredTokenError'' ''token expired''))
               else Inl (LibraryError ''InvalidTokenError'' ''invalid signature'')))"

section \<open>A sample deployment\<close>

text \<open>
  Concrete values on which the theorems below are instantiated: stand-ins for the
  libraries (a hash that prefixes, a signer that fails without a secret, a verifier
  that knows two tokens), a configuration, and a store with two accounts.
\<close>

text \<open>
  Stand-ins for the two string methods, reading a \<open>char\<close> as a code point below 256:
  the white space of that range is 9 to 13, 32 and 160, and its capitals are
  \<^verbatim>\<open>A-Z\<close> and 192 to 222 without 215.
\<close>

definition latin1WhiteSpace :: "char \<Rightarrow> bool" where
  "latin1WhiteSpace c = (of_char c \<in> {9::nat, 10, 11, 12, 13, 32, 160})"

definition latin1Trim :: "string \<Rightarrow> string" where
  "latin1Trim s = rev (dropWhile latin1WhiteSpace (rev (dropWhile latin1WhiteSpace s)))"

definition latin1Lower :: "char \<Rightarrow> char" where
  "latin1Lower c =
     (let n = (of_char c :: nat)
      in if (65 \<le> n \<and> n \<le> 90) \<or> (192 \<le> n \<and> n \<le> 222 \<and> n \<noteq> 215)
         then char_of (n + 32) else c)"

definition latin1ToLowerCase :: "string \<Rightarrow> string" where
  "latin1ToLowerCase s = map latin1Lower s"

definition sampleLibs :: libs where
  "sampleLibs =
     \<lparr>bcrypt_hash = (\<lambda>p cost. ''$2b$'' @ p),
      bcrypt_compare = (\<lambda>p h. h = ''$2b$'' @ p),
      jwt_sign = (\<lambda>pl secret expiry.
         case secret of
           None \<Rightarrow> Inl (LibraryError ''Error'' ''secretOrPrivateKey must have a value'')
         | Some s \<Rightarrow> Inr (s @ ''.jwt'')),
      jwt_verify = (\<lambda>token secret.
         if token = Some ''jane.jwt''
         then Inr (Some \<lparr>p_id = Some 2, p_Email = Some ''jane@x.com'',
                          p_UserName = Some ''janedoe'', p_fullName = Some ''Jane Doe''\<rparr>)
         else if token = Some ''ghost.jwt''
         then Inr (Some \<lparr>p_id = Some 99, p_Email = Some ''ghost@x.com'',
                          p_UserName = Some ''ghost'', p_fullName = Some ''Ghost''\<rparr>)
         else Inl (LibraryError ''JsonWebTokenError'' ''jwt malformed'')),
      UploadOnCloudinary = map_option (\<lambda>path. \<lparr>url = Some (''http://cdn/'' @ path)\<rparr>),
      trim = latin1Trim,
      toLowerCase = latin1ToLowerCase\<rparr>"

definition sampleTimespan :: "string \<Rightarrow> nat option" where
  "sampleTimespan s =
     (if s = ''1d'' then Some 86400 else if s = ''10d'' then Some 864000 else None)"

definition sampleEnv :: env where
  "sampleEnv =
     \<lparr>ACCESS_TOKEN_SECRET = Some ''access'', ACCESS_TOKEN_EXPIRY = Some ''1d'',
      REFRESH_TOKEN_SECRET = Some ''refresh'', REFRESH_TOKEN_EXPIRY = Some ''10d''\<rparr>"

definition bob :: user_doc where
  "bob =
     \<lparr>oid = 1, UserName = Some ''bob'', Email = Some ''bob@x.com'', fullName = Some ''Bob'',
      avatar = Some ''http://cdn/b.png'', coverImage = Some [], watchHistory = [],
      password = Some ''$2b$hunter2'', refreshToken = None\<rparr>"

definition jane :: user_doc where
  "jane =
     \<lparr>oid = 2, UserName = Some ''janedoe'', Email = Some ''jane@x.com'',
      fullName = Some ''Jane Doe'', avatar = Some ''http://cdn/a.png'', coverImage = Some [],
      watchHistory = [], password = Some ''$2b$secret123'', refreshToken = Some ''old.jwt''\<rparr>"

definition sampleDb :: db where
  "sampleDb = \<lparr>users = [bob, jane], nextId = 3, writable = True\<rparr>"

definition emptyDb :: db where
  "emptyDb = \<lparr>users = [], nextId = 1, writable = True\<rparr>"

definition emptyRequest :: request where
  "emptyRequest =
     \<lparr>body = \<lparr>b_fullName = None, b_Email = None, b_UserName = None, b_password = None\<rparr>,
      avatarPath = None, coverImagePath = None, cookieAccessToken = None,
      authorization = None, user = None\<rparr>"

definition janeLogin :: request where
  "janeLogin =
     emptyRequest\<lparr>body := \<lparr>b_fullName = None, b_Email = Some ''jane@x.com'',
                              b_UserName = Some ''janedoe'',
                              b_password = Some ''secret123''\<rparr>\<rparr>"

definition janeBearer :: request where
  "janeBearer = emptyRequest\<lparr>authorization := Some ''Bearer jane.jwt''\<rparr>"

definition ghostBearer :: request where
  "ghostBearer = emptyRequest\<lparr>authorization := Some ''Bearer ghost.jwt''\<rparr>"

definition registerNoUserName :: request where
  "registerNoUserName =
     emptyRequest\<lparr>body := \<lparr>b_fullName = Some ''Al Smith'', b_Email = Some ''al@x.com'',
                              b_UserName = None, b_password = Some ''pw12345''\<rparr>,
                   avatarPath := Some ''a.png''\<rparr>"

definition registerBlankDuplicate :: request where
  "registerBlankDuplicate =
     emptyRequest\<lparr>body := \<lparr>b_fullName = Some '' '', b_Email = Some ''new@x.com'',
                              b_UserName = Some ''janedoe'', b_password = Some ''pw12345''\<rparr>,
                   avatarPath := Some ''a.png''\<rparr>"

definition registerDuplicate :: request where
  "registerDuplicate =
     emptyRequest\<lparr>body := \<lparr>b_fullName = Some ''Jane Roe'', b_Email = Some ''new@x.com'',
                              b_UserName = Some '' JaneDoe '', b_password = Some ''pw12345''\<rparr>,
                   avatarPath := Some ''a.png''\<rparr>"


definition alNew :: document where
  "alNew =
     newDocument sampleLibs sampleDb (Some ''Al Smith'') (Some ''http://cdn/a.png'') (Some [])
       (Some ''al@x.com'') (Some ''pw12345'') (Some ''al'')"

section \<open>Facts about the store operations\<close>



lemma map_password_updateFirst:
  "(\<And>u. password (f u) = password u) \<Longrightarrow> map password (updateFirst P f xs) = map password xs"
  by (induction xs) auto

lemma find_updateFirst:
  "(\<And>u. oid (f u) = oid u) \<Longrightarrow>
   find (\<lambda>u. oid u = k) (updateFirst (\<lambda>u. oid u = k) f xs) =
     map_option f (find (\<lambda>u. oid u = k) xs)"
  by (induction xs) auto

lemma oid_setPath: "oid (setPath path src dst) = oid dst"
  by (simp add: setPath_def)

lemma oid_applyModified_aux: "oid (foldr (\<lambda>path. setPath path src) ps u) = oid u"
  by (induction ps) (simp_all add: oid_setPath)

lemma oid_applyModified: "oid (applyModified doc u) = oid u"
  by (simp add: applyModified_def oid_applyModified_aux)

lemma password_applyModified_aux:
  "password (foldr (\<lambda>path. setPath path src) ps u) =
     (if ''password'' \<in> set ps then password src else password u)"
  by (induction ps) (simp_all add: setPath_def)

lemma password_applyModified:
  "password (applyModified doc u) =
     (if isModified ''password'' doc then password (data doc) else password u)"
  by (simp add: applyModified_def isModified_def password_applyModified_aux)



section \<open>Token generation during login\<close>

text \<open>
  C10. Every failure inside the token-generation step of login leaves it as the same
  error, status 500 with the message "problem is here": the 404 raised when no user has
  the given id, a failure of either signing call, and a failure of the save. Whatever
  the step throws is that one error.
\<close>

theorem generateAccessAndRefreshToken_one_error:
  "(\<forall>x d'. generateAccessAndRefreshToken L e d userId = (Inl x, d') \<longrightarrow>
       x = ApiError 500 (Text ''problem is here''))
   \<and> (findById d userId = None \<longrightarrow>
       generateAccessAndRefreshToken L e d userId =
         (Inl (ApiError 500 (Text ''problem is here'')), d))
   \<and> (\<forall>User x. findById d userId = Some User \<and> generateAccessToken L e User = Inl x \<longrightarrow>
       generateAccessAndRefreshToken L e d userId =
         (Inl (ApiError 500 (Text ''problem is here'')), d))
   \<and> (\<forall>User t x. findById d userId = Some User \<and> generateAccessToken L e User = Inr t \<and>
         generateRefreshToken L e User = Inl x \<longrightarrow>
       generateAccessAndRefreshToken L e d userId =
         (Inl (ApiError 500 (Text ''problem is here'')), d))
   \<and> (\<forall>User t r x d'. findById d userId = Some User \<and> generateAccessToken L e User = Inr t \<and>
         generateRefreshToken L e User = Inr r \<and>
         save L False d (setRefreshToken (Some r) User) = (Inl x, d') \<longrightarrow>
       generateAccessAndRefreshToken L e d userId =
         (Inl (ApiError 500 (Text ''problem is here'')), d'))"
  by (auto simp: generateAccessAndRefreshToken_def generateAccessAndRefreshToken_try_def
      split: option.splits sum.splits prod.splits)

theorem generateAccessAndRefreshToken_one_error_witness:
  "findById sampleDb (Some 99) = None
   \<and> generateAccessAndRefreshToken sampleLibs sampleEnv sampleDb (Some 99) =
       (Inl (ApiError 500 (Text ''problem is here'')), sampleDb)
   \<and> findById sampleDb (Some 2) = Some (hydrate jane)
   \<and> generateAccessToken sampleLibs (sampleEnv\<lparr>ACCESS_TOKEN_SECRET := None\<rparr>) (hydrate jane) =
       Inl (LibraryError ''Error'' ''secretOrPrivateKey must have a value'')
   \<and> generateAccessAndRefreshToken sampleLibs (sampleEnv\<lparr>ACCESS_TOKEN_SECRET := None\<rparr>)
         sampleDb (Some 2) =
       (Inl (ApiError 500 (Text ''problem is here'')), sampleDb)"
proof -
  have missing: "findById sampleDb (Some 99) = None"
    by code_simp
  have found: "findById sampleDb (Some 2) = Some (hydrate jane)"
    by code_simp
  have unsigned:
    "generateAccessToken sampleLibs (sampleEnv\<lparr>ACCESS_TOKEN_SECRET := None\<rparr>) (hydrate jane) =
       Inl (LibraryError ''Error'' ''secretOrPrivateKey must have a value'')"
    by code_simp
  from generateAccessAndRefreshToken_one_error [of sampleLibs sampleEnv sampleDb "Some 99"] missing
  have a: "generateAccessAndRefreshToken sampleLibs sampleEnv sampleDb (Some 99) =
       (Inl (ApiError 500 (Text ''problem is here'')), sampleDb)"
    by blast
  from generateAccessAndRefreshToken_one_error
         [of sampleLibs "sampleEnv\<lparr>ACCESS_TOKEN_SECRET := None\<rparr>" sampleDb "Some 2"]
       found unsigned
  have b: "generateAccessAndRefreshToken sampleLibs (sampleEnv\<lparr>ACCESS_TOKEN_SECRET := None\<rparr>)
             sampleDb (Some 2) =
       (Inl (ApiError 500 (Text ''problem is here'')), sampleDb)"
    by blast
  from missing a found unsigned b show ?thesis by blast
qed

section \<open>Facts about saving\<close>

lemma preSave_unmodified: "\<not> isModified ''password'' doc \<Longrightarrow> preSave L doc = Inr doc"
  by (simp add: preSave_def)

lemma preSave_modified:
  "isModified ''password'' doc \<Longrightarrow> password (data doc) = Some p \<Longrightarrow>
   preSave L doc = Inr (doc\<lparr>data := (data doc)\<lparr>password := Some (bcrypt_hash L p 11)\<rparr>\<rparr>)"
  by (simp add: preSave_def)

lemma preSave_Inr:
  "preSave L doc = Inr this \<Longrightarrow>
   modifiedPaths this = modifiedPaths doc \<and> isNew this = isNew doc \<and> oid (data this) = oid (data doc)"
  by (auto simp: preSave_def split: if_splits option.splits)

lemma save_Inr_clean: "save L v d doc = (Inr saved, d') \<Longrightarrow> modifiedPaths saved = []"
  by (auto simp: save_def split: if_splits sum.splits)

lemma find_append_None: "find P xs = None \<Longrightarrow> find P (xs @ ys) = find P ys"
  by (induction xs) (auto split: if_splits)

lemma find_None_duplicateKey:
  "\<not> duplicateKey us x \<Longrightarrow> find (\<lambda>u. oid u = oid x) us = None"
  by (auto simp: duplicateKey_def list_ex_iff find_None_iff)

lemma save_unmodified_password:
  assumes "\<not> isModified ''password'' doc" and "save L v d doc = (Inr saved, d')"
  shows "password (data saved) = password (data doc)"
  using assms
  by (auto simp: save_def preSave_unmodified split: if_splits)

lemma save_keeps_stored_passwords:
  assumes "\<not> isModified ''password'' doc" and "\<not> isNew doc" and "save L v d doc = (r, d')"
  shows "map password (users d') = map password (users d)"
proof -
  have "map password (updateFirst (\<lambda>u. oid u = oid (data doc)) (applyModified doc) (users d)) =
          map password (users d)"
    using assms(1) by (intro map_password_updateFirst) (simp add: password_applyModified)
  with assms show ?thesis
    by (auto simp: save_def preSave_unmodified split: if_splits)
qed

lemma save_modified_password:
  assumes "isModified ''password'' doc" and "password (data doc) = Some p"
      and "save L v d doc = (Inr saved, d')"
  shows "password (data saved) = Some (bcrypt_hash L p 11)
         \<and> map_option (\<lambda>x. password (data x)) (findById d' (Some (oid (data doc)))) =
             Some (Some (bcrypt_hash L p 11))"
proof -
  define this where "this = doc\<lparr>data := (data doc)\<lparr>password := Some (bcrypt_hash L p 11)\<rparr>\<rparr>"
  have pre: "preSave L doc = Inr this"
    using assms(1,2) by (simp add: preSave_modified this_def)
  have m: "isModified ''password'' this"
    using assms(1) by (simp add: this_def isModified_def)
  have pw: "password (data this) = Some (bcrypt_hash L p 11)"
    by (simp add: this_def)
  have o: "oid (data this) = oid (data doc)"
    by (simp add: this_def)
  show ?thesis
  proof (cases "isNew this")
    case True
    with assms(3) pre have nd: "\<not> duplicateKey (users d) (data this)"
      and s: "saved = this\<lparr>modifiedPaths := [], isNew := False\<rparr>"
      and d': "d' = d\<lparr>users := users d @ [data this]\<rparr>"
      by (auto simp: save_def split: if_splits)
    from nd have "find (\<lambda>u. oid u = oid (data this)) (users d) = None"
      by (rule find_None_duplicateKey)
    then have "find (\<lambda>u. oid u = oid (data this)) (users d @ [data this]) = Some (data this)"
      by (simp add: find_append_None)
    with s d' pw o show ?thesis
      by (simp add: findById_def hydrate_def)
  next
    case False
    with assms(3) pre m have s: "saved = this\<lparr>modifiedPaths := []\<rparr>"
      and d': "d' = d\<lparr>users := updateFirst (\<lambda>u. oid u = oid (data this)) (applyModified this) (users d)\<rparr>"
      and f: "find (\<lambda>u. oid u = oid (data this)) (users d) \<noteq> None"
      by (auto simp: save_def isModified_def split: if_splits)
    from f obtain u where u: "find (\<lambda>u. oid u = oid (data this)) (users d) = Some u"
      by blast
    have "find (\<lambda>u. oid u = oid (data this))
            (updateFirst (\<lambda>u. oid u = oid (data this)) (applyModified this) (users d)) =
          Some (applyModified this u)"
      using u by (simp add: find_updateFirst oid_applyModified)
    with s d' pw o m show ?thesis
      by (simp add: findById_def hydrate_def password_applyModified)
  qed
qed

lemma hydrate_setRefreshToken_unmodified:
  "\<not> isModified ''password'' (setRefreshToken v (hydrate u)) \<and> \<not> isNew (setRefreshToken v (hydrate u))"
  by (simp add: setRefreshToken_def hydrate_def isModified_def)

lemma generate_try_keeps_passwords:
  "generateAccessAndRefreshToken_try L e d userId = (r, d') \<Longrightarrow>
   map password (users d') = map password (users d)"
  by (auto simp: generateAccessAndRefreshToken_try_def findById_def
      split: option.splits sum.splits prod.splits
      dest!: save_keeps_stored_passwords [OF conjunct1 [OF hydrate_setRefreshToken_unmodified]
                conjunct2 [OF hydrate_setRefreshToken_unmodified]])

lemma generate_keeps_passwords:
  "generateAccessAndRefreshToken L e d userId = (r, d') \<Longrightarrow>
   map password (users d') = map password (users d)"
  by (auto simp: generateAccessAndRefreshToken_def split: prod.splits sum.splits
      dest: generate_try_keeps_passwords)

lemma findByIdAndUpdate_keeps_passwords:
  "findByIdAndUpdate d i = (r, d') \<Longrightarrow> map password (users d') = map password (users d)"
  by (auto simp: findByIdAndUpdate_def map_password_updateFirst split: if_splits option.splits)

lemma loginUser_keeps_passwords:
  "loginUser L e d req = (r, d') \<Longrightarrow> map password (users d') = map password (users d)"
  by (auto simp: loginUser_def Let_def split: if_splits option.splits sum.splits prod.splits
      dest: generate_keeps_passwords)

lemma logoutUser_keeps_passwords:
  "logoutUser d req = (r, d') \<Longrightarrow> map password (users d') = map password (users d)"
  by (auto simp: logoutUser_def split: option.splits sum.splits prod.splits
      dest: findByIdAndUpdate_keeps_passwords)







section \<open>Login\<close>




section \<open>Saving a user record\<close>

text \<open>
  C7. A successful save of a document whose password path is modified stores
  \<open>bcrypt_hash\<close> applied once to that password, and leaves the path unmodified, so the
  next save does not hash again; a save of a document whose password path is not
  modified keeps the password it holds and, for a loaded document, every stored
  password. In particular the token-generation step of login, the login handler and the
  logout handler leave every stored password hash as it was.
\<close>

theorem save_hashes_modified_password_only:
  "(\<forall>p saved d'. isModified ''password'' doc \<and> password (data doc) = Some p \<and>
        save L v d doc = (Inr saved, d') \<longrightarrow>
        password (data saved) = Some (bcrypt_hash L p 11)
        \<and> map_option (\<lambda>x. password (data x)) (findById d' (Some (oid (data doc)))) =
            Some (Some (bcrypt_hash L p 11))
        \<and> \<not> isModified ''password'' saved)
   \<and> (\<forall>saved d'. \<not> isModified ''password'' doc \<and> save L v d doc = (Inr saved, d') \<longrightarrow>
        password (data saved) = password (data doc) \<and> \<not> isModified ''password'' saved)
   \<and> (\<forall>r d'. \<not> isModified ''password'' doc \<and> \<not> isNew doc \<and> save L v d doc = (r, d') \<longrightarrow>
        map password (users d') = map password (users d))
   \<and> (\<forall>r d'. generateAccessAndRefreshToken L e d userId = (r, d') \<longrightarrow>
        map password (users d') = map password (users d))
   \<and> (\<forall>r d'. loginUser L e d req = (r, d') \<longrightarrow>
        map password (users d') = map password (users d))
   \<and> (\<forall>r d'. logoutUser d req = (r, d') \<longrightarrow>
        map password (users d') = map password (users d))"
proof (intro conjI allI impI)
  fix p saved d'
  assume a: "isModified ''password'' doc \<and> password (data doc) = Some p \<and>
        save L v d doc = (Inr saved, d')"
  then show "password (data saved) = Some (bcrypt_hash L p 11)"
    and "map_option (\<lambda>x. password (data x)) (findById d' (Some (oid (data doc)))) =
            Some (Some (bcrypt_hash L p 11))"
    using save_modified_password [of doc p L v d saved d'] by simp_all
  from a show "\<not> isModified ''password'' saved"
    by (auto simp: isModified_def dest: save_Inr_clean)
next
  fix saved d'
  assume a: "\<not> isModified ''password'' doc \<and> save L v d doc = (Inr saved, d')"
  then show "password (data saved) = password (data doc)"
    using save_unmodified_password [of doc L v d saved d'] by simp
  from a show "\<not> isModified ''password'' saved"
    by (auto simp: isModified_def dest: save_Inr_clean)
next
  fix r d'
  assume "\<not> isModified ''password'' doc \<and> \<not> isNew doc \<and> save L v d doc = (r, d')"
  then show "map password (users d') = map password (users d)"
    using save_keeps_stored_passwords [of doc L v d r d'] by simp
next
  fix r d'
  assume "generateAccessAndRefreshToken L e d userId = (r, d')"
  then show "map password (users d') = map password (users d)"
    by (rule generate_keeps_passwords)
next
  fix r d'
  assume "loginUser L e d req = (r, d')"
  then show "map password (users d') = map password (users d)"
    by (rule loginUser_keeps_passwords)
next
  fix r d'
  assume "logoutUser d req = (r, d')"
  then show "map password (users d') = map password (users d)"
    by (rule logoutUser_keeps_passwords)
qed

theorem save_hashes_modified_password_only_witness:
  "isModified ''password'' alNew
   \<and> save sampleLibs True sampleDb alNew =
       (Inr (alNew\<lparr>data := (data alNew)\<lparr>password := Some ''$2b$pw12345''\<rparr>,
                   modifiedPaths := [], isNew := False\<rparr>),
        sampleDb\<lparr>users := [bob, jane, (data alNew)\<lparr>password := Some ''$2b$pw12345''\<rparr>]\<rparr>)
   \<and> map_option (\<lambda>x. password (data x))
        (findById (sampleDb\<lparr>users := [bob, jane, (data alNew)\<lparr>password := Some ''$2b$pw12345''\<rparr>]\<rparr>)
           (Some (oid (data alNew)))) = Some (Some (bcrypt_hash sampleLibs ''pw12345'' 11))
   \<and> map password (users (snd (loginUser sampleLibs sampleEnv sampleDb janeLogin))) =
       map password (users sampleDb)
   \<and> map password (users (snd (logoutUser sampleDb (janeBearer\<lparr>user := Some (UserDocument (hydrate jane))\<rparr>)))) =
       map password (users sampleDb)"
proof -
  have m: "isModified ''password'' alNew"
    by code_simp
  have pw: "password (data alNew) = Some ''pw12345''"
    by code_simp
  have s: "save sampleLibs True sampleDb alNew =
       (Inr (alNew\<lparr>data := (data alNew)\<lparr>password := Some ''$2b$pw12345''\<rparr>,
                   modifiedPaths := [], isNew := False\<rparr>),
        sampleDb\<lparr>users := [bob, jane, (data alNew)\<lparr>password := Some ''$2b$pw12345''\<rparr>]\<rparr>)"
    by code_simp
  note main = save_hashes_modified_password_only
  from main [of alNew sampleLibs True sampleDb] m pw s
  have a: "map_option (\<lambda>x. password (data x))
        (findById (sampleDb\<lparr>users := [bob, jane, (data alNew)\<lparr>password := Some ''$2b$pw12345''\<rparr>]\<rparr>)
           (Some (oid (data alNew)))) = Some (Some (bcrypt_hash sampleLibs ''pw12345'' 11))"
    by blast
  from main [of alNew sampleLibs True sampleDb sampleEnv "Some 2" janeLogin]
  have b: "map password (users (snd (loginUser sampleLibs sampleEnv sampleDb janeLogin))) =
       map password (users sampleDb)"
    by (metis prod.collapse)
  from main [where d = sampleDb
               and req = "janeBearer\<lparr>user := Some (UserDocument (hydrate jane))\<rparr>"]
  have c: "map password (users (snd (logoutUser sampleDb (janeBearer\<lparr>user := Some (UserDocument (hydrate jane))\<rparr>)))) =
       map password (users sampleDb)"
    by (metis prod.collapse)
  from m s a b c show ?thesis by blast
qed

section \<open>Registration\<close>

text \<open>
  C5, as stated, fails: the blank-field check comes before the lookup, so a
  registration whose handle is taken and whose full name is blank is answered with the
  400 error, not the 409.
\<close>

theorem registerUser_blank_before_conflict:
  "findOne sampleLibs sampleDb (b_UserName (body registerBlankDuplicate))
     (b_Email (body registerBlankDuplicate)) = Some (hydrate jane)
   \<and> registerUser sampleLibs sampleDb registerBlankDuplicate =
       (Inl (ApiError 400 (Text ''all fields are required'')), sampleDb)"
  by code_simp

text \<open>
  C5, amended. A registration one of whose four fields is blank after trimming throws
  the 400 error, whatever the store holds. A registration none of whose four fields is
  blank after trimming, and whose handle or email, trimmed and lower-cased, is the handle
  or email of a stored record, throws the 409 error. Both return the store as it was.
\<close>

theorem registerUser_conflict:
  "(list_ex (\<lambda>field. map_option (trim L) field = Some [])
      [b_fullName (body req), b_Email (body req), b_UserName (body req),
       b_password (body req)] \<longrightarrow>
    registerUser L d req = (Inl (ApiError 400 (Text ''all fields are required'')), d))
   \<and> (\<forall>u. \<not> list_ex (\<lambda>field. map_option (trim L) field = Some [])
              [b_fullName (body req), b_Email (body req), b_UserName (body req),
               b_password (body req)]
          \<and> u \<in> set (users d)
          \<and> (UserName u = castLowerTrim L (b_UserName (body req)) \<or>
              Email u = castLowerTrim L (b_Email (body req))) \<longrightarrow>
        registerUser L d req =
          (Inl (ApiError 409 (Text ''UserName or Email already exists'')), d))"
proof (intro conjI allI impI)
  assume "list_ex (\<lambda>field. map_option (trim L) field = Some [])
      [b_fullName (body req), b_Email (body req), b_UserName (body req),
       b_password (body req)]"
  then show "registerUser L d req = (Inl (ApiError 400 (Text ''all fields are required'')), d)"
    by (simp add: registerUser_def Let_def)
next
  fix u
  assume a: "\<not> list_ex (\<lambda>field. map_option (trim L) field = Some [])
              [b_fullName (body req), b_Email (body req), b_UserName (body req),
               b_password (body req)]
          \<and> u \<in> set (users d)
          \<and> (UserName u = castLowerTrim L (b_UserName (body req)) \<or>
              Email u = castLowerTrim L (b_Email (body req)))"
  then have "find (\<lambda>u. UserName u = castLowerTrim L (b_UserName (body req)) \<or>
                       Email u = castLowerTrim L (b_Email (body req))) (users d) \<noteq> None"
    by (auto simp: find_None_iff)
  then obtain existedUser
    where "findOne L d (b_UserName (body req)) (b_Email (body req)) = Some existedUser"
    by (auto simp: findOne_def)
  with a show "registerUser L d req =
          (Inl (ApiError 409 (Text ''UserName or Email already exists'')), d)"
    by (simp add: registerUser_def Let_def)
qed

theorem registerUser_conflict_witness:
  "list_ex (\<lambda>field. map_option (trim sampleLibs) field = Some [])
      [b_fullName (body registerBlankDuplicate), b_Email (body registerBlankDuplicate),
       b_UserName (body registerBlankDuplicate), b_password (body registerBlankDuplicate)]
   \<and> registerUser sampleLibs emptyDb registerBlankDuplicate =
       (Inl (ApiError 400 (Text ''all fields are required'')), emptyDb)
   \<and> jane \<in> set (users sampleDb)
   \<and> UserName jane = castLowerTrim sampleLibs (b_UserName (body registerDuplicate))
   \<and> registerUser sampleLibs sampleDb registerDuplicate =
       (Inl (ApiError 409 (Text ''UserName or Email already exists'')), sampleDb)"
proof -
  have b: "list_ex (\<lambda>field. map_option (trim sampleLibs) field = Some [])
      [b_fullName (body registerBlankDuplicate), b_Email (body registerBlankDuplicate),
       b_UserName (body registerBlankDuplicate), b_password (body registerBlankDuplicate)]"
    by code_simp
  have v: "\<not> list_ex (\<lambda>field. map_option (trim sampleLibs) field = Some [])
              [b_fullName (body registerDuplicate), b_Email (body registerDuplicate),
               b_UserName (body registerDuplicate), b_password (body registerDuplicate)]"
    by code_simp
  have m: "jane \<in> set (users sampleDb)"
    by (simp add: sampleDb_def)
  have k: "UserName jane = castLowerTrim sampleLibs (b_UserName (body registerDuplicate))"
    by code_simp
  from registerUser_conflict [of sampleLibs registerBlankDuplicate emptyDb] b
  have x: "registerUser sampleLibs emptyDb registerBlankDuplicate =
       (Inl (ApiError 400 (Text ''all fields are required'')), emptyDb)"
    by blast
  from registerUser_conflict [of sampleLibs registerDuplicate sampleDb] v m k
  have y: "registerUser sampleLibs sampleDb registerDuplicate =
       (Inl (ApiError 409 (Text ''UserName or Email already exists'')), sampleDb)"
    by blast
  from b x m k y show ?thesis by blast
qed

text \<open>
  C4. On an empty store, a registration whose \<^verbatim>\<open>UserName\<close> is missing passes the
  blank-field check (\<^verbatim>\<open>undefined?.trim()\<close> is not the empty string), finds no
  duplicate, uploads the avatar, and then fails on \<^verbatim>\<open>UserName.toLowerCase()\<close> with
  a \<open>TypeError\<close>: not the 400 error the check raises for a blank field.
\<close>

theorem registerUser_missing_UserName:
  "registerUser sampleLibs emptyDb registerNoUserName =
     (Inl (TypeError ''Cannot read properties of undefined''), emptyDb)
   \<and> b_UserName (body registerNoUserName) = None"
  by code_simp

section \<open>What login returns\<close>

text \<open>
  C1. The login of an account whose record holds a password hash and an earlier
  refresh token answers with that record as loaded: the \<^verbatim>\<open>user\<close> of the response
  body carries both the password hash and the earlier refresh token.
\<close>

theorem loginUser_returns_password_hash:
  "loginUser sampleLibs sampleEnv sampleDb janeLogin =
     (Inr \<lparr>statusCode = 200,
           cookies = [(''accessToken'', ''access.jwt''), (''refreshToken'', ''refresh.jwt'')],
           clearedCookies = [],
           json = ApiResponse 200 (LoginJson jane ''access.jwt'' ''refresh.jwt'')
                    ''User Logged in succesfully''\<rparr>,
      sampleDb\<lparr>users := [bob, jane\<lparr>refreshToken := Some ''refresh.jwt''\<rparr>]\<rparr>)
   \<and> password jane = Some ''$2b$secret123''
   \<and> refreshToken jane = Some ''old.jwt''"
  by code_simp

section \<open>Verification and logout\<close>

text \<open>
  C2. For a token that verifies, the middleware attaches the \<^verbatim>\<open>user\<close> model to the
  request, not the record of the token's identity, and it does so whether a user with
  the token's \<^verbatim>\<open>_id\<close> is stored (id 2) or not (id 99).
\<close>

theorem verifyJWT_attaches_model:
  "findById sampleDb (Some 2) = Some (hydrate jane)
   \<and> verifyJWT sampleLibs sampleEnv sampleDb janeBearer =
       Inr (janeBearer\<lparr>user := Some UserModel\<rparr>)
   \<and> verifyJWT sampleLibs sampleEnv sampleDb janeBearer \<noteq>
       Inr (janeBearer\<lparr>user := Some (UserDocument (select (hydrate jane)))\<rparr>)
   \<and> findById sampleDb (Some 99) = None
   \<and> verifyJWT sampleLibs sampleEnv sampleDb ghostBearer =
       Inr (ghostBearer\<lparr>user := Some UserModel\<rparr>)"
  by code_simp

text \<open>
  C3. A logout request with a token that verifies clears both cookies and leaves the
  store as it was: the refresh token of the token's identity is still stored.
\<close>

theorem logoutRoute_keeps_refreshToken:
  "logoutRoute sampleLibs sampleEnv sampleDb janeBearer =
     (Inr \<lparr>statusCode = 200, cookies = [],
           clearedCookies = [''accessToken'', ''refreshToken''],
           json = ApiResponse 200 EmptyJson ''user logged out successfully''\<rparr>,
      sampleDb)
   \<and> map_option (\<lambda>doc. refreshToken (data doc)) (findById sampleDb (Some 2)) =
       Some (Some ''old.jwt'')"
  by code_simp

section \<open>The access token round trip\<close>

lemma decNat_encNat: "decNat (encNat n @ rest) = Some (n, rest)"
proof (induction n rule: encNat.induct)
  case (1 n)
  show ?case
  proof (cases "n = 0")
    case True
    then show ?thesis by (simp add: encNat.simps)
  next
    case False
    with "1" have ih: "decNat (encNat (n div 2) @ rest) = Some (n div 2, rest)"
      by simp
    show ?thesis
    proof (cases "even n")
      case True
      with False ih show ?thesis
        by (subst encNat.simps) auto
    next
      case False
      note odd = this
      with \<open>n \<noteq> 0\<close> ih show ?thesis
        by (subst encNat.simps) (auto simp: odd_two_times_div_two_succ)
    qed
  qed
qed

lemma decStr_encStr: "decStr (encStr s @ rest) = Some (s, rest)"
  by (simp add: decStr_def encStr_def decNat_encNat)

lemma decOpt_encOpt:
  assumes "\<And>x rest. dec (enc x @ rest) = Some (x, rest)"
  shows "decOpt dec (encOpt enc v @ rest) = Some (v, rest)"
  using assms by (cases v) (simp_all add: decOpt_def encOpt_def)

lemma decodeToken_encodeToken: "decodeToken (encodeToken t) = Some t"
proof -
  have "decodeToken (encodeToken t) =
          Some \<lparr>t_key = t_key t, t_exp = t_exp t,
                t_claims = \<lparr>p_id = p_id (t_claims t), p_Email = p_Email (t_claims t),
                            p_UserName = p_UserName (t_claims t),
                            p_fullName = p_fullName (t_claims t)\<rparr>\<rparr>"
    using decOpt_encOpt [of decStr encStr, OF decStr_encStr, of _ "[]"]
    by (simp add: decodeToken_def encodeToken_def decStr_encStr decNat_encNat
        decOpt_encOpt [of decNat encNat, OF decNat_encNat]
        decOpt_encOpt [of decStr encStr, OF decStr_encStr])
  then show ?thesis by simp
qed

text \<open>
  C9. With the signer and the verifier of the spec: the access token the user model
  issues verifies against the access secret to exactly the four claims of the user
  (\<^verbatim>\<open>_id, Email, UserName, fullName\<close>) at every time before the configured expiry
  has elapsed since it was issued, and fails with the expiry error at every time from
  then on.
\<close>

theorem generateAccessToken_round_trip:
  assumes "jwt_sign L = jwtSign timespan issuedAt"
      and "ACCESS_TOKEN_SECRET e = Some k"
      and "ACCESS_TOKEN_EXPIRY e = Some ex"
      and "timespan ex = Some lifetime"
  shows "\<exists>token. generateAccessToken L e this = Inr token
      \<and> (\<forall>now. now < issuedAt + lifetime \<longrightarrow>
            jwtVerify now (Some token) (ACCESS_TOKEN_SECRET e) =
              Inr (Some \<lparr>p_id = Some (oid (data this)), p_Email = Email (data this),
                         p_UserName = UserName (data this),
                         p_fullName = fullName (data this)\<rparr>))
      \<and> (\<forall>now. issuedAt + lifetime \<le> now \<longrightarrow>
            jwtVerify now (Some token) (ACCESS_TOKEN_SECRET e) =
              Inl (LibraryError ''ExpiredTokenError'' ''token expired''))"
  using assms
  by (simp add: generateAccessToken_def jwtSign_def jwtVerify_def decodeToken_encodeToken)

theorem generateAccessToken_round_trip_witness:
  "\<exists>token. generateAccessToken (sampleLibs\<lparr>jwt_sign := jwtSign sampleTimespan 1000\<rparr>) sampleEnv
              (hydrate jane) = Inr token
      \<and> jwtVerify 5000 (Some token) (Some ''access'') =
            Inr (Some \<lparr>p_id = Some 2, p_Email = Some ''jane@x.com'',
                       p_UserName = Some ''janedoe'', p_fullName = Some ''Jane Doe''\<rparr>)
      \<and> jwtVerify 87400 (Some token) (Some ''access'') =
            Inl (LibraryError ''ExpiredTokenError'' ''token expired'')"
proof -
  have s: "jwt_sign (sampleLibs\<lparr>jwt_sign := jwtSign sampleTimespan 1000\<rparr>) =
             jwtSign sampleTimespan 1000"
    by simp
  have k: "ACCESS_TOKEN_SECRET sampleEnv = Some ''access''"
    by (simp add: sampleEnv_def)
  have x: "ACCESS_TOKEN_EXPIRY sampleEnv = Some ''1d''"
    by (simp add: sampleEnv_def)
  have l: "sampleTimespan ''1d'' = Some 86400"
    by (simp add: sampleTimespan_def)
  have j: "oid (data (hydrate jane)) = 2 \<and> Email (data (hydrate jane)) = Some ''jane@x.com'' \<and>
     UserName (data (hydrate jane)) = Some ''janedoe'' \<and>
     fullName (data (hydrate jane)) = Some ''Jane Doe''"
    by (simp add: hydrate_def jane_def)
  from generateAccessToken_round_trip [OF s k x l, of "hydrate jane"] obtain token where
    t: "generateAccessToken (sampleLibs\<lparr>jwt_sign := jwtSign sampleTimespan 1000\<rparr>) sampleEnv
          (hydrate jane) = Inr token"
    and a: "\<forall>now. now < 1000 + 86400 \<longrightarrow>
            jwtVerify now (Some token) (ACCESS_TOKEN_SECRET sampleEnv) =
              Inr (Some \<lparr>p_id = Some (oid (data (hydrate jane))), p_Email = Email (data (hydrate jane)),
                         p_UserName = UserName (data (hydrate jane)),
                         p_fullName = fullName (data (hydrate jane))\<rparr>)"
    and b: "\<forall>now. 1000 + 86400 \<le> now \<longrightarrow>
            jwtVerify now (Some token) (ACCESS_TOKEN_SECRET sampleEnv) =
              Inl (LibraryError ''ExpiredTokenError'' ''token expired'')"
    by blast
  from a have a': "jwtVerify 5000 (Some token) (ACCESS_TOKEN_SECRET sampleEnv) =
              Inr (Some \<lparr>p_id = Some (oid (data (hydrate jane))), p_Email = Email (data (hydrate jane)),
                         p_UserName = UserName (data (hydrate jane)),
                         p_fullName = fullName (data (hydrate jane))\<rparr>)"
    by simp
  from b have b': "jwtVerify 87400 (Some token) (ACCESS_TOKEN_SECRET sampleEnv) =
              Inl (LibraryError ''ExpiredTokenError'' ''token expired'')"
    by simp
  from t a' b' k j show ?thesis by auto
qed

end
